theory Spec2Isabelle
  imports Main
begin

section \<open>JavaScript values, strings and errors\<close>

text \<open>
  The values that travel through \<^verbatim>\<open>src/feed.ts\<close>: option objects are flat JavaScript
  objects whose properties are booleans, numbers, strings or arrays of strings (the
  declared types \<^verbatim>\<open>GetFeedOptions\<close>, \<^verbatim>\<open>NotificationFeedOptions\<close>, the request bodies).
  Numbers are only passed on and tested with \<^verbatim>\<open>typeof\<close>, never computed with; they are
  integers here.
\<close>

datatype jsval =
    JUndefined
  | JNull
  | JBool bool
  | JNum int
  | JStr string
  | JArr "string list"

type_synonym obj = "string \<rightharpoonup> jsval"

text \<open>JavaScript truthiness (\<^verbatim>\<open>!x\<close>, \<^verbatim>\<open>x && y\<close>, \<^verbatim>\<open>x || y\<close>, \<^verbatim>\<open>if (x)\<close>): an array is an
  object and always truthy, the empty string is falsy.\<close>

fun truthy :: "jsval \<Rightarrow> bool" where
  "truthy JUndefined = False"
| "truthy JNull = False"
| "truthy (JBool b) = b"
| "truthy (JNum n) = (n \<noteq> 0)"
| "truthy (JStr s) = (s \<noteq> [])"
| "truthy (JArr xs) = True"

text \<open>Reading a property: an absent key reads as \<^verbatim>\<open>undefined\<close>.\<close>

definition get_prop :: "obj \<Rightarrow> string \<Rightarrow> jsval" where
  "get_prop ob k = (case ob k of None \<Rightarrow> JUndefined | Some v \<Rightarrow> v)"

text \<open>A default parameter \<^verbatim>\<open>options = {}\<close> and the idiom \<^verbatim>\<open>options || {}\<close>: an omitted
  options object is the empty object.\<close>

definition default_obj :: "obj option \<Rightarrow> obj" where
  "default_obj options = (case options of None \<Rightarrow> Map.empty | Some ob \<Rightarrow> ob)"

text \<open>\<^verbatim>\<open>Array.prototype.join(sep)\<close> on an array of strings.\<close>

fun join :: "string list \<Rightarrow> string \<Rightarrow> string" where
  "join [] sep = []"
| "join [x] sep = x"
| "join (x # y # ys) sep = x @ sep @ join (y # ys) sep"

text \<open>\<^verbatim>\<open>String.prototype.indexOf\<close> for a one-character pattern: the position of the first
  occurrence, or \<open>-1\<close>.\<close>

fun indexOf :: "string \<Rightarrow> char \<Rightarrow> int" where
  "indexOf [] c = - 1"
| "indexOf (x # xs) c =
     (if x = c then 0 else (let i = indexOf xs c in if i = - 1 then - 1 else i + 1))"

text \<open>\<^verbatim>\<open>String.prototype.replace\<close> with a one-character string pattern: only the first
  occurrence is replaced.\<close>

fun replace :: "string \<Rightarrow> char \<Rightarrow> string \<Rightarrow> string" where
  "replace [] c r = []"
| "replace (x # xs) c r = (if x = c then r @ xs else x # replace xs c r)"

text \<open>How a template literal \<^verbatim>\<open>`${x}`\<close> renders a value that may be \<^verbatim>\<open>undefined\<close>.\<close>

definition template_opt :: "string option \<Rightarrow> string" where
  "template_opt x = (case x of None \<Rightarrow> ''undefined'' | Some s \<Rightarrow> s)"

text \<open>
  The exceptions the file throws, by class: \<^verbatim>\<open>errors.FeedError\<close>, \<^verbatim>\<open>errors.SiteError\<close> and
  the built-in \<^verbatim>\<open>Error\<close>, each with its message (shortened to its first clause). A
  throw is the \<open>Inl\<close> branch of a result.
\<close>

datatype error =
    FeedError string
  | SiteError string
  | Error string

section \<open>The client, as far as the feed uses it\<close>

text \<open>
  A user id argument is a string, an instance of \<^verbatim>\<open>StreamUser\<close> (with its \<^verbatim>\<open>id\<close>), or
  any other object with an \<^verbatim>\<open>id\<close> property, which the parameter type
  \<^verbatim>\<open>string | { id: string }\<close> of \<^verbatim>\<open>follow\<close> admits as well.
\<close>

datatype user_ref =
    UserId string
  | StreamUser string
  | IdObject string


text \<open>An entry of \<^verbatim>\<open>client.subscriptions\<close>; the Faye subscription is named by its handle.\<close>

record stream_subscription =
  token :: string
  userId :: string
  fayeSubscription :: nat

text \<open>
  Modelled from the spec: the realtime transport (the Faye client behind
  \<^verbatim>\<open>client.getFayeClient()\<close>) is not among the sources; the feed uses only its
  subscribe/cancel contract. \<^verbatim>\<open>subscribe(channel, callback)\<close> opens a subscription and
  returns a new cancellable handle; \<^verbatim>\<open>cancel()\<close> ends the subscription of that handle.
  The state is the next fresh handle and the subscriptions still open.
\<close>

record 'cb faye =
  next_handle :: nat
  active :: "(nat \<times> string \<times> 'cb) list"

definition faye_subscribe :: "'cb faye \<Rightarrow> string \<Rightarrow> 'cb \<Rightarrow> nat \<times> 'cb faye" where
  "faye_subscribe fy channel callback =
     (next_handle fy,
      fy\<lparr>next_handle := Suc (next_handle fy),
         active := active fy @ [(next_handle fy, channel, callback)]\<rparr>)"

definition faye_cancel :: "'cb faye \<Rightarrow> nat \<Rightarrow> 'cb faye" where
  "faye_cancel fy h = fy\<lparr>active := filter (\<lambda>s. fst s \<noteq> h) (active fy)\<rparr>"

text \<open>The fields of \<^verbatim>\<open>StreamClient\<close> the feed reads and writes: the app id (possibly
  not configured), the subscription registry and the Faye client.\<close>

record 'cb client =
  appId :: "string option"
  subscriptions :: "string \<rightharpoonup> stream_subscription"
  fayeClient :: "'cb faye"

section \<open>The feed and its constructor\<close>

text \<open>
  The fields \<^verbatim>\<open>StreamFeed\<close> computes in its constructor. The field \<^verbatim>\<open>id\<close> is \<open>id_feed\<close>
  here. The field \<^verbatim>\<open>client\<close> is a reference to the shared client: the operations below
  take the client's state as an argument instead.
\<close>

record feed =
  token :: string
  id_feed :: string
  slug :: string
  userId :: string
  feedUrl :: string
  feedTogether :: string
  signature :: string
  notificationChannel :: string

text \<open>
  \<^verbatim>\<open>utils.validateFeedSlug\<close> and \<^verbatim>\<open>utils.validateUserId\<close> are not among the sources: they
  are parameters, returning the error they throw, if any. \<^verbatim>\<open>validateUserId\<close> receives
  whatever value the caller holds, so it is a function of a \<open>user_ref\<close>. The token may
  be omitted by a caller (\<open>None\<close>). The parameters \<^verbatim>\<open>userId\<close> and \<^verbatim>\<open>token\<close> are \<open>uid\<close>
  and \<open>tok\<close> here; the fields keep their names.
\<close>

definition StreamFeed ::
  "(string \<Rightarrow> error option) \<Rightarrow> (user_ref \<Rightarrow> error option) \<Rightarrow> 'cb client \<Rightarrow>
   string \<Rightarrow> string \<Rightarrow> string option \<Rightarrow> error + feed" where
  "StreamFeed validateFeedSlug validateUserId client feedSlug uid tok =
     (if feedSlug = [] \<or> uid = [] then
        Inl (FeedError ''Please provide a feed slug and user id'')
      else if indexOf feedSlug CHR '':'' \<noteq> - 1 then
        Inl (FeedError ''Please initialize the feed using client.feed'')
      else
        (case validateFeedSlug feedSlug of
           Some e \<Rightarrow> Inl e
         | None \<Rightarrow>
        (case validateUserId (UserId uid) of
           Some e \<Rightarrow> Inl e
         | None \<Rightarrow>
        (case tok of
           None \<Rightarrow> Inl (FeedError ''Missing token'')
         | Some t \<Rightarrow>
             if t = [] then Inl (FeedError ''Missing token'')
             else
               (let ident = feedSlug @ '':'' @ uid;
                    together = replace ident CHR '':'' ''''
                in Inr \<lparr>token = t,
                        id_feed = ident,
                        slug = feedSlug,
                        userId = uid,
                        feedUrl = replace ident CHR '':'' ''/'',
                        feedTogether = together,
                        signature = together @ '' '' @ t,
                        notificationChannel =
                          ''site-'' @ template_opt (appId client) @ ''-feed-'' @ together\<rparr>)))))"

section \<open>Request descriptors\<close>

text \<open>
  Every operation hands one descriptor to \<^verbatim>\<open>client.get\<close>, \<^verbatim>\<open>client.post\<close> or
  \<^verbatim>\<open>client.delete\<close> and returns what that call returns. The descriptor is the
  operation's result here, with the client method as \<open>verb\<close>; a key the descriptor
  does not have (\<^verbatim>\<open>qs\<close>, \<^verbatim>\<open>body\<close>) is \<open>None\<close>.
\<close>

datatype http_verb = GET | POST | DELETE

record request =
  verb :: http_verb
  url :: string
  qs :: "obj option"
  body :: "obj option"
  signature :: string

section \<open>removeActivity\<close>

text \<open>The argument of \<^verbatim>\<open>removeActivity\<close>: an activity id, or an object
  \<^verbatim>\<open>{ foreignId: ... }\<close>.\<close>

datatype activity_ref =
    ActivityId string
  | ForeignId string

text \<open>The property \<^verbatim>\<open>.foreignId\<close> of the argument: a string has none.\<close>

fun foreignId_of :: "activity_ref \<Rightarrow> string option" where
  "foreignId_of (ActivityId s) = None"
| "foreignId_of (ForeignId f) = Some f"

text \<open>Truthiness of a string that may be \<^verbatim>\<open>undefined\<close>.\<close>

definition truthy_str :: "string option \<Rightarrow> bool" where
  "truthy_str x = (case x of None \<Rightarrow> False | Some s \<Rightarrow> s \<noteq> [])"

fun template_activity :: "activity_ref \<Rightarrow> string" where
  "template_activity (ActivityId s) = s"
| "template_activity (ForeignId f) = ''[object Object]''"

definition removeActivity :: "feed \<Rightarrow> activity_ref \<Rightarrow> request" where
  "removeActivity fd activityId =
     \<lparr>verb = DELETE,
      url = ''feed/'' @ feedUrl fd @ ''/'' @
            (if truthy_str (foreignId_of activityId)
             then template_opt (foreignId_of activityId)
             else template_activity activityId) @ ''/'',
      qs = Some (if truthy_str (foreignId_of activityId)
                 then [''foreign_id'' \<mapsto> JStr ''1''] else Map.empty),
      body = None,
      signature = feed.signature fd\<rparr>"

section \<open>follow\<close>



section \<open>get and getActivityDetail\<close>

text \<open>
  The marking override of \<^verbatim>\<open>get\<close>: \<^verbatim>\<open>options.mark_read && options.mark_read.join\<close>
  holds for an array (any array is truthy and has \<^verbatim>\<open>join\<close>) and for no boolean,
  number or string; the override is then the array joined with commas.
\<close>

fun has_join :: "jsval \<Rightarrow> bool" where
  "has_join (JArr xs) = True"
| "has_join v = False"

fun array_join :: "jsval \<Rightarrow> string \<Rightarrow> string" where
  "array_join (JArr xs) sep = join xs sep"
| "array_join v sep = []"

definition mark_override :: "obj \<Rightarrow> string \<Rightarrow> obj \<Rightarrow> obj" where
  "mark_override options k extra =
     (if truthy (get_prop options k) \<and> has_join (get_prop options k)
      then extra(k \<mapsto> JStr (array_join (get_prop options k) '',''))
      else extra)"

definition extraOptions :: "obj \<Rightarrow> obj" where
  "extraOptions options =
     mark_override options ''mark_seen'' (mark_override options ''mark_read'' Map.empty)"

text \<open>
  \<^verbatim>\<open>client.replaceReactionOptions\<close> and \<^verbatim>\<open>client.shouldUseEnrichEndpoint\<close> are not among
  the sources. Both are handed the options object itself, before it is spread into the
  query, and may rewrite it in place: each is a parameter, a function from the object
  it receives to the object it leaves, the second with its answer.
\<close>

definition get ::
  "(obj \<Rightarrow> obj) \<Rightarrow> (obj \<Rightarrow> bool \<times> obj) \<Rightarrow> feed \<Rightarrow> obj option \<Rightarrow> request" where
  "get replaceReactionOptions shouldUseEnrichEndpoint fd options =
     (let options0 = default_obj options;
          extra = extraOptions options0;
          options1 = replaceReactionOptions options0;
          (enrich, options2) = shouldUseEnrichEndpoint options1;
          path = (if enrich then ''enrich/feed/'' else ''feed/'')
      in \<lparr>verb = GET,
          url = path @ feedUrl fd @ ''/'',
          qs = Some (options2 ++ extra),
          body = None,
          signature = feed.signature fd\<rparr>)"

text \<open>The object literal of \<^verbatim>\<open>getActivityDetail\<close> sets its three keys in order and then
  copies the caller's options over them.\<close>

definition getActivityDetail ::
  "(obj \<Rightarrow> obj) \<Rightarrow> (obj \<Rightarrow> bool \<times> obj) \<Rightarrow> feed \<Rightarrow> string \<Rightarrow> obj option \<Rightarrow>
   request" where
  "getActivityDetail replaceReactionOptions shouldUseEnrichEndpoint fd activityId options =
     get replaceReactionOptions shouldUseEnrichEndpoint fd
       (Some ((((Map.empty(''id_lte'' \<mapsto> JStr activityId))
                 (''id_gte'' \<mapsto> JStr activityId))
                 (''limit'' \<mapsto> JNum 1)) ++ default_obj options))"

text \<open>
  The options of an activity detail read as the specification words them: the caller's
  options, merged with \<open>id_lte = id_gte = activityId\<close> and \<open>limit = 1\<close> for the keys the
  caller leaves out.
\<close>

definition detail_options_spec :: "string \<Rightarrow> obj option \<Rightarrow> obj" where
  "detail_options_spec activityId options k =
     (case default_obj options k of
        Some v \<Rightarrow> Some v
      | None \<Rightarrow>
          if k = ''id_lte'' \<or> k = ''id_gte'' then Some (JStr activityId)
          else if k = ''limit'' then Some (JNum 1)
          else None)"

section \<open>subscribe and unsubscribe\<close>

text \<open>Both return the client's state after the call; \<^verbatim>\<open>subscribe\<close> returns the thrown
  error or the handle of the new subscription with it.\<close>

definition subscribe :: "'cb client \<Rightarrow> feed \<Rightarrow> 'cb \<Rightarrow> (error + nat) \<times> 'cb client" where
  "subscribe cl fd callback =
     (if \<not> truthy_str (appId cl) then (Inl (SiteError ''Missing app id''), cl)
      else
        (let channel = ''/'' @ notificationChannel fd;
             (subscription, fy) = faye_subscribe (fayeClient cl) channel callback
         in (Inr subscription,
             cl\<lparr>fayeClient := fy,
                subscriptions := (subscriptions cl)
                  (channel \<mapsto> \<lparr>stream_subscription.token = token fd,
                               stream_subscription.userId = notificationChannel fd,
                               fayeSubscription = subscription\<rparr>)\<rparr>)))"

definition unsubscribe :: "'cb client \<Rightarrow> feed \<Rightarrow> 'cb client" where
  "unsubscribe cl fd =
     (let channel = ''/'' @ notificationChannel fd in
      case subscriptions cl channel of
        None \<Rightarrow> cl
      | Some streamSubscription \<Rightarrow>
          cl\<lparr>subscriptions := (subscriptions cl)(channel := None),
             fayeClient := faye_cancel (fayeClient cl) (fayeSubscription streamSubscription)\<rparr>)"

text \<open>The handles that are still open at the transport while the registry entry of
  their channel does not hold them: no \<^verbatim>\<open>unsubscribe\<close> can cancel these.\<close>

definition leaked :: "'cb client \<Rightarrow> nat list" where
  "leaked cl =
     map fst (filter (\<lambda>s. map_option fayeSubscription (subscriptions cl (fst (snd s)))
                           \<noteq> Some (fst s))
                     (active (fayeClient cl)))"

section \<open>updateActivityToTargets\<close>

text \<open>The \<^verbatim>\<open>forEach\<close> over \<^verbatim>\<open>addedTargets\<close>: the first element that \<^verbatim>\<open>removedTargets\<close>
  includes throws.\<close>

fun check_overlap :: "string list \<Rightarrow> string list \<Rightarrow> error option" where
  "check_overlap [] removedTargets = None"
| "check_overlap (addedTarget # rest) removedTargets =
     (if addedTarget \<in> set removedTargets
      then Some (Error ''Can't have the same feed ID in addedTargets and removedTargets.'')
      else check_overlap rest removedTargets)"

text \<open>\<^verbatim>\<open>if (list) body.key = list\<close>: a list that was passed is truthy, also when empty.\<close>

definition set_targets :: "string \<Rightarrow> string list option \<Rightarrow> obj \<Rightarrow> obj" where
  "set_targets k targets b = (case targets of None \<Rightarrow> b | Some xs \<Rightarrow> b(k \<mapsto> JArr xs))"

definition updateActivityToTargets ::
  "feed \<Rightarrow> string \<Rightarrow> string \<Rightarrow> string list option \<Rightarrow> string list option \<Rightarrow>
   string list option \<Rightarrow> error + request" where
  "updateActivityToTargets fd foreignId time newTargets addedTargets removedTargets =
     (if foreignId = [] then Inl (Error ''Missing foreign_id parameter!'')
      else if time = [] then Inl (Error ''Missing time parameter!'')
      else if newTargets = None \<and> addedTargets = None \<and> removedTargets = None then
        Inl (Error ''Requires you to provide at least one parameter'')
      else if newTargets \<noteq> None \<and> (addedTargets \<noteq> None \<or> removedTargets \<noteq> None) then
        Inl (Error ''Can't include add_targets or removedTargets'')
      else
        (case (case (addedTargets, removedTargets) of
                 (Some added, Some removed) \<Rightarrow> check_overlap added removed
               | _ \<Rightarrow> None) of
           Some e \<Rightarrow> Inl e
         | None \<Rightarrow>
             Inr \<lparr>verb = POST,
                  url = ''feed_targets/'' @ feedUrl fd @ ''/activity_to_targets/'',
                  qs = None,
                  body = Some (set_targets ''removed_targets'' removedTargets
                              (set_targets ''added_targets'' addedTargets
                              (set_targets ''new_targets'' newTargets
                                 [''foreign_id'' \<mapsto> JStr foreignId, ''time'' \<mapsto> JStr time]))),
                  signature = feed.signature fd\<rparr>))"

section \<open>Sequences of method calls\<close>

text \<open>
  A call of one of the methods above, with its arguments, and what it leaves behind:
  the client and the feed object (\<^verbatim>\<open>this\<close>). \<^verbatim>\<open>subscribe\<close> and \<^verbatim>\<open>unsubscribe\<close> write to the
  client, also when \<^verbatim>\<open>subscribe\<close> throws; the other methods build a descriptor from the
  fields they read. No method assigns a field of \<^verbatim>\<open>this\<close>.
\<close>

datatype 'cb invocation =
    RemoveActivity activity_ref
  | Follow string user_ref "obj option"
  | Get "obj option"
  | GetActivityDetail string "obj option"
  | Subscribe 'cb
  | Unsubscribe
  | UpdateActivityToTargets string string "string list option" "string list option"
      "string list option"

fun invoke :: "'cb client \<times> feed \<Rightarrow> 'cb invocation \<Rightarrow> 'cb client \<times> feed" where
  "invoke (cl, fd) (RemoveActivity activityId) = (cl, fd)"
| "invoke (cl, fd) (Follow targetSlug targetUserId options) = (cl, fd)"
| "invoke (cl, fd) (Get options) = (cl, fd)"
| "invoke (cl, fd) (GetActivityDetail activityId options) = (cl, fd)"
| "invoke (cl, fd) (Subscribe callback) = (snd (subscribe cl fd callback), fd)"
| "invoke (cl, fd) Unsubscribe = (unsubscribe cl fd, fd)"
| "invoke (cl, fd) (UpdateActivityToTargets foreignId time newTargets addedTargets removedTargets)
     = (cl, fd)"

fun run :: "'cb client \<times> feed \<Rightarrow> 'cb invocation list \<Rightarrow> 'cb client \<times> feed" where
  "run st [] = st"
| "run st (c # calls) = run (invoke st c) calls"

text \<open>A sequence in which every \<^verbatim>\<open>subscribe\<close> finds no registry entry for the feed's
  channel: no second \<^verbatim>\<open>subscribe\<close> without an \<^verbatim>\<open>unsubscribe\<close> in between.\<close>

fun is_subscribe :: "'cb invocation \<Rightarrow> bool" where
  "is_subscribe (Subscribe callback) = True"
| "is_subscribe c = False"

fun single_subscribes :: "'cb client \<times> feed \<Rightarrow> 'cb invocation list \<Rightarrow> bool" where
  "single_subscribes st [] = True"
| "single_subscribes st (c # calls) =
     ((is_subscribe c \<longrightarrow>
         subscriptions (fst st) (''/'' @ notificationChannel (snd st)) = None)
      \<and> single_subscribes (invoke st c) calls)"

section \<open>Example values\<close>

text \<open>A client with app id \<open>app\<close> and one without, the feed \<open>user:1\<close> of the first,
  validators that accept every string and reject every object, a
  \<^verbatim>\<open>replaceReactionOptions\<close> that removes \<open>ownReactions\<close> (as the comment on that option in
  \<^verbatim>\<open>EnrichOptions\<close> says it does) and one that changes nothing, a
  \<^verbatim>\<open>shouldUseEnrichEndpoint\<close> that takes the \<open>enrich\<close> key out of the object and answers
  with it, and one that answers no and changes nothing.\<close>

definition client_app :: "unit client" where
  "client_app = \<lparr>appId = Some ''app'', subscriptions = Map.empty,
                 fayeClient = \<lparr>next_handle = 0, active = []\<rparr>\<rparr>"

definition client_no_app :: "unit client" where
  "client_no_app = client_app\<lparr>appId := None\<rparr>"

definition feed_user_1 :: feed where
  "feed_user_1 =
     \<lparr>token = ''tok'', id_feed = ''user:1'', slug = ''user'', userId = ''1'',
      feedUrl = ''user/1'', feedTogether = ''user1'', signature = ''user1 tok'',
      notificationChannel = ''site-app-feed-user1''\<rparr>"

definition accept_slug :: "string \<Rightarrow> error option" where
  "accept_slug s = None"

fun accept_user :: "user_ref \<Rightarrow> error option" where
  "accept_user (UserId s) = None"
| "accept_user other = Some (FeedError ''Invalid userId'')"

definition drop_ownReactions :: "obj \<Rightarrow> obj" where
  "drop_ownReactions ob = ob(''ownReactions'' := None)"

definition keep_options :: "obj \<Rightarrow> obj" where
  "keep_options ob = ob"

definition take_enrich :: "obj \<Rightarrow> bool \<times> obj" where
  "take_enrich ob = (truthy (get_prop ob ''enrich''), ob(''enrich'' := None))"

definition plain_endpoint :: "obj \<Rightarrow> bool \<times> obj" where
  "plain_endpoint ob = (False, ob)"

section \<open>Facts about the string functions\<close>

lemma indexOf_lower: "- 1 \<le> indexOf s c"
  by (induction s) (auto simp: Let_def)

lemma indexOf_absent: "indexOf s c = - 1 \<longleftrightarrow> c \<notin> set s"
proof (induction s)
  case Nil
  show ?case by simp
next
  case (Cons x xs)
  have "indexOf xs c + 1 \<noteq> - 1"
    using indexOf_lower [of xs c] by arith
  with Cons show ?case by (auto simp: Let_def)
qed

lemma replace_separator:
  "c \<notin> set s \<Longrightarrow> replace (s @ c # t) c r = s @ r @ t"
  by (induction s) auto

lemma feed_user_1_constructed:
  "StreamFeed accept_slug accept_user client_app ''user'' ''1'' (Some ''tok'') = Inr feed_user_1"
  by (simp add: StreamFeed_def accept_slug_def client_app_def feed_user_1_def template_opt_def
      Let_def)

section \<open>Feed identity\<close>

lemma StreamFeed_reads_appId:
  "appId cl' = appId cl \<Longrightarrow>
   StreamFeed vSlug vUser cl' s u tok = StreamFeed vSlug vUser cl s u tok"
  by (simp add: StreamFeed_def Let_def split: option.splits)

lemma invoke_feed: "snd (invoke st c) = snd st"
  by (cases st; cases c) simp_all

lemma invoke_appId: "appId (fst (invoke st c)) = appId (fst st)"
  by (cases st; cases c)
     (simp_all add: subscribe_def unsubscribe_def Let_def split: prod.splits option.splits)

lemma run_feed: "snd (run st calls) = snd st"
  by (induction calls arbitrary: st) (simp_all add: invoke_feed)

lemma run_appId: "appId (fst (run st calls)) = appId (fst st)"
  by (induction calls arbitrary: st) (simp_all add: invoke_appId)

text \<open>
  C1. For every valid triple, that is a non-empty slug without a colon and a non-empty
  user id that the validators accept, with a non-empty token, the constructor returns
  a feed, and that feed has id \<open>slug:userId\<close>, URL path \<open>slug/userId\<close>, joined form
  \<open>slug\<close> followed by \<open>userId\<close>, signature joined form, a space, the token, and
  notification channel \<open>site-\<close>, the app id as a template renders it, \<open>-feed-\<close>, the
  joined form. After any sequence of method calls the feed object is the same, and
  constructing again from the same inputs, on the client as the calls left it, returns
  the same feed.
\<close>

theorem feed_identity:
  assumes "s \<noteq> []" and "u \<noteq> []" and "CHR '':'' \<notin> set s"
    and "vSlug s = None" and "vUser (UserId u) = None" and "t \<noteq> []"
  shows "\<exists>f. StreamFeed vSlug vUser cl s u (Some t) = Inr f
       \<and> id_feed f = s @ '':'' @ u
       \<and> feedUrl f = s @ ''/'' @ u
       \<and> feedTogether f = s @ u
       \<and> token f = t
       \<and> feed.signature f = s @ u @ '' '' @ t
       \<and> notificationChannel f = ''site-'' @ template_opt (appId cl) @ ''-feed-'' @ s @ u
       \<and> (\<forall>a. appId cl = Some a \<longrightarrow>
             notificationChannel f = ''site-'' @ a @ ''-feed-'' @ s @ u)
       \<and> slug f = s \<and> userId f = u
       \<and> (\<forall>calls. snd (run (cl, f) calls) = f
             \<and> StreamFeed vSlug vUser (fst (run (cl, f) calls)) s u (Some t) = Inr f)"
proof -
  have sep: "replace (s @ CHR '':'' # u) CHR '':'' r = s @ r @ u" for r
    by (rule replace_separator [OF assms(3)])
  have no_colon: "indexOf s CHR '':'' = - 1"
    using assms(3) by (simp add: indexOf_absent)
  define f where "f = \<lparr>token = t, id_feed = s @ '':'' @ u, slug = s, userId = u,
      feedUrl = s @ ''/'' @ u, feedTogether = s @ u, signature = s @ u @ '' '' @ t,
      notificationChannel = ''site-'' @ template_opt (appId cl) @ ''-feed-'' @ s @ u\<rparr>"
  have built: "StreamFeed vSlug vUser cl s u (Some t) = Inr f"
    using assms(1,2,4,5,6) by (simp add: StreamFeed_def no_colon sep Let_def f_def)
  have again: "StreamFeed vSlug vUser (fst (run (cl, f) calls)) s u (Some t) = Inr f" for calls
    using StreamFeed_reads_appId [of "fst (run (cl, f) calls)" cl vSlug vUser s u "Some t"]
      run_appId [of "(cl, f)" calls] built by simp
  have same: "snd (run (cl, f) calls) = f" for calls
    by (simp add: run_feed)
  have fields: "id_feed f = s @ '':'' @ u \<and> feedUrl f = s @ ''/'' @ u
       \<and> feedTogether f = s @ u \<and> token f = t \<and> feed.signature f = s @ u @ '' '' @ t
       \<and> notificationChannel f = ''site-'' @ template_opt (appId cl) @ ''-feed-'' @ s @ u
       \<and> (\<forall>a. appId cl = Some a \<longrightarrow>
             notificationChannel f = ''site-'' @ a @ ''-feed-'' @ s @ u)
       \<and> slug f = s \<and> userId f = u"
    by (simp add: f_def template_opt_def)
  from built fields same again show ?thesis by blast
qed

theorem feed_identity_witness:
  "\<exists>f. StreamFeed accept_slug accept_user client_app ''user'' ''1'' (Some ''tok'') = Inr f
     \<and> id_feed f = ''user:1'' \<and> feedUrl f = ''user/1'' \<and> feedTogether f = ''user1''
     \<and> feed.signature f = ''user1 tok'' \<and> notificationChannel f = ''site-app-feed-user1''
     \<and> snd (run (client_app, f) [Subscribe (), Get None, Unsubscribe]) = f
     \<and> StreamFeed accept_slug accept_user
          (fst (run (client_app, f) [Subscribe (), Get None, Unsubscribe]))
          ''user'' ''1'' (Some ''tok'') = Inr f"
proof -
  have valid: "''user'' \<noteq> []" "''1'' \<noteq> []" "CHR '':'' \<notin> set ''user''"
    "accept_slug ''user'' = None" "accept_user (UserId ''1'') = None" "''tok'' \<noteq> []"
    by (simp_all add: accept_slug_def)
  have app: "appId client_app = Some ''app''"
    by (simp add: client_app_def)
  from feed_identity [where s = "''user''" and u = "''1''" and t = "''tok''"
      and vSlug = accept_slug and vUser = accept_user and cl = client_app, OF valid]
  obtain f where
    f: "StreamFeed accept_slug accept_user client_app ''user'' ''1'' (Some ''tok'') = Inr f"
      "id_feed f = ''user'' @ '':'' @ ''1''" "feedUrl f = ''user'' @ ''/'' @ ''1''"
      "feedTogether f = ''user'' @ ''1''"
      "feed.signature f = ''user'' @ ''1'' @ '' '' @ ''tok''"
      "\<forall>a. appId client_app = Some a \<longrightarrow>
         notificationChannel f = ''site-'' @ a @ ''-feed-'' @ ''user'' @ ''1''"
      "\<forall>calls. snd (run (client_app, f) calls) = f
         \<and> StreamFeed accept_slug accept_user (fst (run (client_app, f) calls))
              ''user'' ''1'' (Some ''tok'') = Inr f"
    by blast
  from f(6) app have "notificationChannel f = ''site-'' @ ''app'' @ ''-feed-'' @ ''user'' @ ''1''"
    by blast
  with f(2-5) have fields: "id_feed f = ''user:1''" "feedUrl f = ''user/1''"
    "feedTogether f = ''user1''" "feed.signature f = ''user1 tok''"
    "notificationChannel f = ''site-app-feed-user1''"
    by simp_all
  let ?calls = "[Subscribe (), Get None, Unsubscribe]"
  from f(7) have after: "snd (run (client_app, f) ?calls) = f"
    "StreamFeed accept_slug accept_user (fst (run (client_app, f) ?calls))
       ''user'' ''1'' (Some ''tok'') = Inr f"
    by blast+
  from f(1) fields after show ?thesis by blast
qed

section \<open>Construction failures\<close>

text \<open>
  C4. The constructor throws exactly when the slug is empty, the user id is empty, the
  slug contains a colon, a validator rejects the slug or the user id, or the token is
  empty or absent. A throw and a feed exclude each other: on a failure there is no
  feed, hence no identity and no signature. The constructor's own checks (empty slug
  or user id, colon, token) throw \<^verbatim>\<open>FeedError\<close>, the class this library uses for what
  the specification calls a ValidationError.
\<close>

theorem constructor_fails_iff:
  "(isl (StreamFeed vSlug vUser cl s u tok) \<longleftrightarrow>
      s = [] \<or> u = [] \<or> CHR '':'' \<in> set s
      \<or> (\<exists>e. vSlug s = Some e) \<or> (\<exists>e. vUser (UserId u) = Some e)
      \<or> tok = None \<or> tok = Some [])
   \<and> (isl (StreamFeed vSlug vUser cl s u tok) \<longleftrightarrow>
        (\<nexists>f. StreamFeed vSlug vUser cl s u tok = Inr f))
   \<and> (s = [] \<or> u = [] \<or> CHR '':'' \<in> set s
        \<or> (vSlug s = None \<and> vUser (UserId u) = None \<and> (tok = None \<or> tok = Some []))
      \<longrightarrow> (\<exists>m. StreamFeed vSlug vUser cl s u tok = Inl (FeedError m)))"
  by (cases "StreamFeed vSlug vUser cl s u tok")
     (auto simp: StreamFeed_def indexOf_absent Let_def split: if_splits option.splits)

theorem constructor_fails_iff_witness:
  "isl (StreamFeed accept_slug accept_user client_app '''' ''1'' (Some ''tok''))
   \<and> isl (StreamFeed accept_slug accept_user client_app ''user:1'' ''1'' (Some ''tok''))
   \<and> isl (StreamFeed accept_slug accept_user client_app ''user'' ''1'' None)
   \<and> \<not> isl (StreamFeed accept_slug accept_user client_app ''user'' ''1'' (Some ''tok''))"
  using constructor_fails_iff [of accept_slug accept_user client_app "''''" "''1''" "Some ''tok''"]
    constructor_fails_iff [of accept_slug accept_user client_app "''user:1''" "''1''" "Some ''tok''"]
    constructor_fails_iff [of accept_slug accept_user client_app "''user''" "''1''" None]
    constructor_fails_iff [of accept_slug accept_user client_app "''user''" "''1''" "Some ''tok''"]
  by (simp add: accept_slug_def)

section \<open>Reading a feed\<close>

lemma extraOptions_key:
  "extraOptions options k =
     (if (k = ''mark_read'' \<or> k = ''mark_seen'')
         \<and> truthy (get_prop options k) \<and> has_join (get_prop options k)
      then Some (JStr (array_join (get_prop options k) '','')) else None)"
  by (simp add: extraOptions_def mark_override_def)

lemma extraOptions_array:
  "options k = Some (JArr xs) \<Longrightarrow> k = ''mark_read'' \<or> k = ''mark_seen'' \<Longrightarrow>
   extraOptions options k = Some (JStr (join xs '',''))"
  by (auto simp: extraOptions_key get_prop_def)

lemma extraOptions_scalar:
  "options k = Some v \<Longrightarrow> v = JBool b \<or> v = JStr s \<or> v = JNum n \<Longrightarrow> extraOptions options k = None"
  by (auto simp: extraOptions_key get_prop_def)

text \<open>
  C2, as amended. For every options object passed to \<^verbatim>\<open>get\<close>, the transmitted query is
  the options object, as \<^verbatim>\<open>replaceReactionOptions\<close> and \<^verbatim>\<open>shouldUseEnrichEndpoint\<close> leave it,
  overlaid with the marking overrides computed from the raw options; an override wins
  over a key of the same name, and the only override keys are \<open>mark_read\<close> and
  \<open>mark_seen\<close>. A \<open>mark_read\<close> (or \<open>mark_seen\<close>) that is an array is sent as its
  comma-joined string. One that is \<open>true\<close> or \<open>current\<close> gets no override: what is sent
  for the key is what the object holds after the collaborators' rewrite, the value
  itself when they leave the key alone. When they leave the whole object alone, the
  query is the raw options overlaid with the overrides.
\<close>

theorem get_query_composition:
  "\<exists>sent. qs (get R E fd (Some options)) = Some sent
     \<and> sent = snd (E (R options)) ++ extraOptions options
     \<and> (\<forall>k v. extraOptions options k = Some v \<longrightarrow> sent k = Some v)
     \<and> (\<forall>k. extraOptions options k = None \<longrightarrow> sent k = snd (E (R options)) k)
     \<and> dom (extraOptions options) \<subseteq> {''mark_read'', ''mark_seen''}
     \<and> (\<forall>k xs. (k = ''mark_read'' \<or> k = ''mark_seen'') \<and> options k = Some (JArr xs) \<longrightarrow>
            sent k = Some (JStr (join xs '','')))
     \<and> (\<forall>k v. (k = ''mark_read'' \<or> k = ''mark_seen'') \<and> options k = Some v
              \<and> (v = JBool True \<or> v = JStr ''current'') \<longrightarrow>
            extraOptions options k = None \<and> sent k = snd (E (R options)) k
            \<and> (snd (E (R options)) k = options k \<longrightarrow> sent k = Some v))
     \<and> (snd (E (R options)) = options \<longrightarrow> sent = options ++ extraOptions options)
     \<and> url (get R E fd (Some options))
         = (if fst (E (R options)) then ''enrich/feed/'' else ''feed/'') @ feedUrl fd @ ''/''"
proof -
  let ?left = "snd (E (R options))"
  have arr: "(?left ++ extraOptions options) k = Some (JStr (join xs '',''))"
    if "(k = ''mark_read'' \<or> k = ''mark_seen'') \<and> options k = Some (JArr xs)" for k xs
    using that extraOptions_array [of options k xs] by (simp add: map_add_def)
  have pass: "extraOptions options k = None \<and> (?left ++ extraOptions options) k = ?left k
       \<and> (?left k = options k \<longrightarrow> (?left ++ extraOptions options) k = Some v)"
    if "(k = ''mark_read'' \<or> k = ''mark_seen'') \<and> options k = Some v
          \<and> (v = JBool True \<or> v = JStr ''current'')" for k v
    using that extraOptions_scalar [of options k v True "''current''" 0]
    by (auto simp: map_add_def)
  have dom_extra: "dom (extraOptions options) \<subseteq> {''mark_read'', ''mark_seen''}"
    by (auto simp: extraOptions_key split: if_splits)
  have sent: "qs (get R E fd (Some options)) = Some (?left ++ extraOptions options)"
    by (simp add: get_def default_obj_def Let_def split: prod.splits)
  have path: "url (get R E fd (Some options))
         = (if fst (E (R options)) then ''enrich/feed/'' else ''feed/'') @ feedUrl fd @ ''/''"
    by (simp add: get_def default_obj_def Let_def split: prod.splits)
  have wins: "(?left ++ extraOptions options) k = Some v" if "extraOptions options k = Some v"
    for k v using that by (simp add: map_add_def)
  have rest: "(?left ++ extraOptions options) k = ?left k" if "extraOptions options k = None"
    for k using that by (simp add: map_add_def)
  have raw: "?left ++ extraOptions options = options ++ extraOptions options"
    if "?left = options" using that by simp
  show ?thesis
    unfolding sent path
    using arr pass dom_extra wins rest raw by blast
qed

theorem get_query_composition_witness:
  "\<exists>sent. qs (get keep_options take_enrich feed_user_1
              (Some [''enrich'' \<mapsto> JBool True, ''limit'' \<mapsto> JNum 10,
                     ''mark_read'' \<mapsto> JArr [''a'', ''b''],
                     ''mark_seen'' \<mapsto> JBool True])) = Some sent
     \<and> sent ''mark_read'' = Some (JStr ''a,b'')
     \<and> sent ''mark_seen'' = Some (JBool True)
     \<and> sent ''limit'' = Some (JNum 10)
     \<and> sent ''enrich'' = None"
  using get_query_composition [of keep_options take_enrich feed_user_1
      "[''enrich'' \<mapsto> JBool True, ''limit'' \<mapsto> JNum 10,
        ''mark_read'' \<mapsto> JArr [''a'', ''b''], ''mark_seen'' \<mapsto> JBool True]"]
  by (auto simp: extraOptions_key get_prop_def map_add_def keep_options_def take_enrich_def)

text \<open>
  C2, as stated, fails: the query is not the raw options overlaid with the overrides
  once a collaborator rewrites the object. With a \<^verbatim>\<open>replaceReactionOptions\<close> that removes
  \<open>ownReactions\<close>, the raw options have the key and the query does not.
\<close>

theorem get_raw_options_counterexample:
  "qs (get drop_ownReactions plain_endpoint feed_user_1
         (Some [''ownReactions'' \<mapsto> JBool True, ''mark_read'' \<mapsto> JArr [''a'', ''b'']]))
     \<noteq> Some ([''ownReactions'' \<mapsto> JBool True, ''mark_read'' \<mapsto> JArr [''a'', ''b'']]
              ++ extraOptions [''ownReactions'' \<mapsto> JBool True,
                               ''mark_read'' \<mapsto> JArr [''a'', ''b'']])
   \<and> ([''ownReactions'' \<mapsto> JBool True, ''mark_read'' \<mapsto> JArr [''a'', ''b'']]
            ++ extraOptions [''ownReactions'' \<mapsto> JBool True,
                             ''mark_read'' \<mapsto> JArr [''a'', ''b'']]) ''ownReactions''
        = Some (JBool True)
   \<and> (\<exists>sent. qs (get drop_ownReactions plain_endpoint feed_user_1
         (Some [''ownReactions'' \<mapsto> JBool True, ''mark_read'' \<mapsto> JArr [''a'', ''b'']]))
         = Some sent
       \<and> sent ''ownReactions'' = None \<and> sent ''mark_read'' = Some (JStr ''a,b''))"
proof -
  let ?raw = "[''ownReactions'' \<mapsto> JBool True, ''mark_read'' \<mapsto> JArr [''a'', ''b'']]"
  let ?sent = "drop_ownReactions ?raw ++ extraOptions ?raw"
  have q: "qs (get drop_ownReactions plain_endpoint feed_user_1 (Some ?raw)) = Some ?sent"
    by (simp add: get_def default_obj_def plain_endpoint_def Let_def)
  have own: "?sent ''ownReactions'' = None"
    by (simp add: map_add_def extraOptions_key drop_ownReactions_def)
  have mr: "?sent ''mark_read'' = Some (JStr ''a,b'')"
    by (simp add: map_add_def extraOptions_key get_prop_def)
  have raw: "(?raw ++ extraOptions ?raw) ''ownReactions'' = Some (JBool True)"
    by (simp add: map_add_def extraOptions_key)
  have ne: "?sent \<noteq> ?raw ++ extraOptions ?raw"
    using own raw by (metis option.distinct(1))
  from q own mr raw ne show ?thesis by simp
qed

section \<open>One activity\<close>

lemma detail_literal:
  "(((Map.empty(''id_lte'' \<mapsto> JStr a))(''id_gte'' \<mapsto> JStr a))(''limit'' \<mapsto> JNum 1))
     ++ default_obj options = detail_options_spec a options"
  by (rule ext) (simp add: detail_options_spec_def map_add_def split: option.splits)

text \<open>
  C9. \<^verbatim>\<open>getActivityDetail(activityId, options)\<close> is \<^verbatim>\<open>get\<close> on the caller's options merged
  with \<open>id_lte = id_gte = activityId\<close> and \<open>limit = 1\<close>: it hands over the same request
  and so returns what \<^verbatim>\<open>get\<close> returns.
\<close>

theorem getActivityDetail_is_get:
  "getActivityDetail R E fd activityId options
     = get R E fd (Some (detail_options_spec activityId options))"
  by (simp add: getActivityDetail_def detail_literal)

theorem getActivityDetail_is_get_witness:
  "getActivityDetail keep_options plain_endpoint feed_user_1 ''abc'' None
     = get keep_options plain_endpoint feed_user_1 (Some (detail_options_spec ''abc'' None))
   \<and> detail_options_spec ''abc'' None ''id_lte'' = Some (JStr ''abc'')
   \<and> detail_options_spec ''abc'' None ''limit'' = Some (JNum 1)
   \<and> detail_options_spec ''abc'' (Some [''limit'' \<mapsto> JNum 5]) ''limit'' = Some (JNum 5)"
  using getActivityDetail_is_get [of keep_options plain_endpoint feed_user_1 "''abc''" None]
  by (simp add: default_obj_def detail_options_spec_def)

section \<open>Removing an activity\<close>

text \<open>
  C10. \<^verbatim>\<open>removeActivity\<close> selects the foreign-id mode by the truthiness of
  \<^verbatim>\<open>foreignId\<close>: for \<^verbatim>\<open>{ foreignId: "" }\<close> the query has no \<open>foreign_id\<close> flag and the
  path segment is the rendering of the whole argument object; the flag is set exactly
  for a non-empty \<^verbatim>\<open>foreignId\<close>. Nothing is rejected: the result is always a request.
\<close>

theorem removeActivity_empty_foreignId:
  "removeActivity fd (ForeignId []) =
     \<lparr>verb = DELETE, url = ''feed/'' @ feedUrl fd @ ''/[object Object]/'',
      qs = Some Map.empty, body = None, signature = feed.signature fd\<rparr>
   \<and> (qs (removeActivity fd (ForeignId f)) = Some [''foreign_id'' \<mapsto> JStr ''1'']) = (f \<noteq> [])
   \<and> (qs (removeActivity fd (ForeignId f)) = Some Map.empty) = (f = [])"
  by (auto simp: removeActivity_def truthy_str_def template_opt_def dest: fun_cong [where x = "''foreign_id''"])

theorem removeActivity_empty_foreignId_witness:
  "url (removeActivity feed_user_1 (ForeignId [])) = ''feed/user/1/[object Object]/''
   \<and> qs (removeActivity feed_user_1 (ForeignId ''abc'')) = Some [''foreign_id'' \<mapsto> JStr ''1'']"
  using removeActivity_empty_foreignId [of feed_user_1 "''abc''"]
  by (simp add: feed_user_1_def)

text \<open>
  C5, as amended. A string id \<open>s\<close> gives a DELETE of \<open>feed/{urlPath}/s/\<close> with an empty
  query, and an object with a non-empty \<^verbatim>\<open>foreignId\<close> \<open>f\<close> gives a DELETE of
  \<open>feed/{urlPath}/f/\<close> with the query \<open>foreign_id=1\<close>; the two queries differ, so the modes
  exclude each other.
\<close>

theorem removeActivity_modes:
  "removeActivity fd (ActivityId s) =
     \<lparr>verb = DELETE, url = ''feed/'' @ feedUrl fd @ ''/'' @ s @ ''/'',
      qs = Some Map.empty, body = None, signature = feed.signature fd\<rparr>
   \<and> (f \<noteq> [] \<longrightarrow> removeActivity fd (ForeignId f) =
     \<lparr>verb = DELETE, url = ''feed/'' @ feedUrl fd @ ''/'' @ f @ ''/'',
      qs = Some [''foreign_id'' \<mapsto> JStr ''1''], body = None, signature = feed.signature fd\<rparr>)
   \<and> (Map.empty :: obj) \<noteq> [''foreign_id'' \<mapsto> JStr ''1'']"
  by (auto simp: removeActivity_def truthy_str_def template_opt_def dest: fun_cong [where x = "''foreign_id''"])

theorem removeActivity_modes_witness:
  "url (removeActivity feed_user_1 (ActivityId ''abc'')) = ''feed/user/1/abc/''
   \<and> qs (removeActivity feed_user_1 (ActivityId ''abc'')) = Some Map.empty
   \<and> url (removeActivity feed_user_1 (ForeignId ''abc'')) = ''feed/user/1/abc/''
   \<and> qs (removeActivity feed_user_1 (ForeignId ''abc'')) = Some [''foreign_id'' \<mapsto> JStr ''1'']"
  using removeActivity_modes [of feed_user_1 "''abc''" "''abc''"]
  by (simp add: feed_user_1_def)

text \<open>
  C5, as stated, fails at \<^verbatim>\<open>{ foreignId: "" }\<close>: the argument has the shape of a foreign
  id reference, and yet the request carries no \<open>foreign_id\<close> flag and its path is not
  built from the foreign id.
\<close>

theorem removeActivity_shape_counterexample:
  "url (removeActivity feed_user_1 (ForeignId [])) = ''feed/user/1/[object Object]/''
   \<and> url (removeActivity feed_user_1 (ForeignId [])) \<noteq> ''feed/user/1//''
   \<and> qs (removeActivity feed_user_1 (ForeignId [])) = Some Map.empty
   \<and> qs (removeActivity feed_user_1 (ForeignId [])) \<noteq> Some [''foreign_id'' \<mapsto> JStr ''1'']"
  by (auto simp: removeActivity_def truthy_str_def feed_user_1_def dest: fun_cong [where x = "''foreign_id''"])

section \<open>Updating the targets of an activity\<close>

lemma check_overlap_None: "check_overlap added removed = None \<longleftrightarrow> set added \<inter> set removed = {}"
  by (induction added) auto

lemma check_overlap_Error: "check_overlap added removed = Some e \<Longrightarrow> \<exists>m. e = Error m"
  by (induction added) (auto split: if_splits)

lemma set_targets_key:
  "set_targets k targets b k' = (if k' = k \<and> targets \<noteq> None then map_option JArr targets else b k')"
  by (auto simp: set_targets_def split: option.splits)

text \<open>
  C3. \<^verbatim>\<open>updateActivityToTargets\<close> throws, and so produces no request, exactly when the
  foreign id is empty, the time is empty, none of the three lists is passed,
  \<^verbatim>\<open>newTargets\<close> comes with \<^verbatim>\<open>addedTargets\<close> or \<^verbatim>\<open>removedTargets\<close>, or \<^verbatim>\<open>addedTargets\<close> and
  \<^verbatim>\<open>removedTargets\<close> share an element. Every such throw is a plain \<^verbatim>\<open>Error\<close>, which is how
  this function raises what the specification calls a ValidationError. Otherwise the
  request is a POST whose body has \<open>foreign_id\<close>, \<open>time\<close> and each list exactly when it
  was passed; in particular disjoint added and removed lists succeed with both lists
  in the body.
\<close>

theorem updateActivityToTargets_validation:
  "(isl (updateActivityToTargets fd fid t n a r) \<longleftrightarrow>
      fid = [] \<or> t = [] \<or> (n = None \<and> a = None \<and> r = None)
      \<or> (n \<noteq> None \<and> (a \<noteq> None \<or> r \<noteq> None))
      \<or> (\<exists>added removed. a = Some added \<and> r = Some removed \<and> set added \<inter> set removed \<noteq> {}))
   \<and> (\<forall>e. updateActivityToTargets fd fid t n a r = Inl e \<longrightarrow> (\<exists>m. e = Error m))
   \<and> (\<forall>req. updateActivityToTargets fd fid t n a r = Inr req \<longrightarrow>
         verb req = POST
         \<and> url req = ''feed_targets/'' @ feedUrl fd @ ''/activity_to_targets/''
         \<and> signature req = feed.signature fd
         \<and> (\<exists>b. body req = Some b
              \<and> b ''foreign_id'' = Some (JStr fid) \<and> b ''time'' = Some (JStr t)
              \<and> b ''new_targets'' = map_option JArr n
              \<and> b ''added_targets'' = map_option JArr a
              \<and> b ''removed_targets'' = map_option JArr r))
   \<and> (\<forall>added removed. fid \<noteq> [] \<and> t \<noteq> [] \<and> n = None \<and> a = Some added \<and> r = Some removed
         \<and> set added \<inter> set removed = {} \<longrightarrow>
         (\<exists>req b. updateActivityToTargets fd fid t n a r = Inr req \<and> body req = Some b
            \<and> b ''added_targets'' = Some (JArr added) \<and> b ''removed_targets'' = Some (JArr removed)
            \<and> b ''foreign_id'' = Some (JStr fid) \<and> b ''time'' = Some (JStr t)
            \<and> b ''new_targets'' = None))"
proof -
  let ?res = "updateActivityToTargets fd fid t n a r"
  have fails: "isl ?res \<longleftrightarrow>
      fid = [] \<or> t = [] \<or> (n = None \<and> a = None \<and> r = None)
      \<or> (n \<noteq> None \<and> (a \<noteq> None \<or> r \<noteq> None))
      \<or> (\<exists>added removed. a = Some added \<and> r = Some removed \<and> set added \<inter> set removed \<noteq> {})"
  proof (cases "check_overlap (the a) (the r)")
    case None
    then show ?thesis
      using check_overlap_None [of "the a" "the r"]
      by (auto simp: updateActivityToTargets_def split: option.splits)
  next
    case (Some e)
    then show ?thesis
      using check_overlap_None [of "the a" "the r"]
      by (auto simp: updateActivityToTargets_def split: option.splits)
  qed
  have cls: "\<exists>m. e = Error m" if "?res = Inl e" for e
    using that check_overlap_Error
    by (auto simp: updateActivityToTargets_def split: if_splits option.splits)
  have ok: "verb req = POST
         \<and> url req = ''feed_targets/'' @ feedUrl fd @ ''/activity_to_targets/''
         \<and> signature req = feed.signature fd
         \<and> (\<exists>b. body req = Some b
              \<and> b ''foreign_id'' = Some (JStr fid) \<and> b ''time'' = Some (JStr t)
              \<and> b ''new_targets'' = map_option JArr n
              \<and> b ''added_targets'' = map_option JArr a
              \<and> b ''removed_targets'' = map_option JArr r)" if "?res = Inr req" for req
    using that
    by (auto simp: updateActivityToTargets_def set_targets_key split: if_splits option.splits)
  have disj: "\<exists>req b. ?res = Inr req \<and> body req = Some b
            \<and> b ''added_targets'' = Some (JArr added) \<and> b ''removed_targets'' = Some (JArr removed)
            \<and> b ''foreign_id'' = Some (JStr fid) \<and> b ''time'' = Some (JStr t)
            \<and> b ''new_targets'' = None"
    if pre: "fid \<noteq> [] \<and> t \<noteq> [] \<and> n = None \<and> a = Some added \<and> r = Some removed
         \<and> set added \<inter> set removed = {}" for added removed
  proof -
    from pre have "\<not> isl ?res" unfolding fails by simp
    then obtain req where req: "?res = Inr req" by (cases ?res) simp_all
    from ok [OF req] obtain b where "body req = Some b"
      "b ''foreign_id'' = Some (JStr fid)" "b ''time'' = Some (JStr t)"
      "b ''new_targets'' = map_option JArr n" "b ''added_targets'' = map_option JArr a"
      "b ''removed_targets'' = map_option JArr r" by blast
    with pre req show ?thesis by simp
  qed
  show ?thesis
  proof (intro conjI allI impI)
    show "isl ?res \<longleftrightarrow>
      fid = [] \<or> t = [] \<or> (n = None \<and> a = None \<and> r = None)
      \<or> (n \<noteq> None \<and> (a \<noteq> None \<or> r \<noteq> None))
      \<or> (\<exists>added removed. a = Some added \<and> r = Some removed \<and> set added \<inter> set removed \<noteq> {})"
      by (rule fails)
  qed (use cls ok disj in \<open>blast+\<close>)
qed

theorem updateActivityToTargets_validation_witness:
  "isl (updateActivityToTargets feed_user_1 ''fid'' ''2020'' None None None)
   \<and> isl (updateActivityToTargets feed_user_1 ''fid'' ''2020'' (Some [''n'']) (Some [''x'']) None)
   \<and> isl (updateActivityToTargets feed_user_1 ''fid'' ''2020'' None (Some [''x'']) (Some [''x'']))
   \<and> (\<exists>req b. updateActivityToTargets feed_user_1 ''fid'' ''2020'' None (Some [''x'']) (Some [''y''])
          = Inr req \<and> body req = Some b
        \<and> b ''added_targets'' = Some (JArr [''x'']) \<and> b ''removed_targets'' = Some (JArr [''y''])
        \<and> b ''foreign_id'' = Some (JStr ''fid'') \<and> b ''time'' = Some (JStr ''2020'')
        \<and> b ''new_targets'' = None)"
proof -
  note fails = updateActivityToTargets_validation [THEN conjunct1]
  note succeeds = updateActivityToTargets_validation [THEN conjunct2, THEN conjunct2, THEN conjunct2]
  have "isl (updateActivityToTargets feed_user_1 ''fid'' ''2020'' None None None)"
    by (simp add: fails)
  moreover have "isl (updateActivityToTargets feed_user_1 ''fid'' ''2020''
                        (Some [''n'']) (Some [''x'']) None)"
    by (simp add: fails)
  moreover have "isl (updateActivityToTargets feed_user_1 ''fid'' ''2020''
                        None (Some [''x'']) (Some [''x'']))"
    by (simp add: fails)
  moreover have "\<exists>req b. updateActivityToTargets feed_user_1 ''fid'' ''2020''
                    None (Some [''x'']) (Some [''y'']) = Inr req \<and> body req = Some b
        \<and> b ''added_targets'' = Some (JArr [''x'']) \<and> b ''removed_targets'' = Some (JArr [''y''])
        \<and> b ''foreign_id'' = Some (JStr ''fid'') \<and> b ''time'' = Some (JStr ''2020'')
        \<and> b ''new_targets'' = None"
    by (rule succeeds [rule_format]) simp
  ultimately show ?thesis by blast
qed

section \<open>Following a feed\<close>




section \<open>Subscriptions\<close>

lemma subscribe_configured:
  "truthy_str (appId cl) \<Longrightarrow>
   subscribe cl fd cb =
     (Inr (next_handle (fayeClient cl)),
      cl\<lparr>fayeClient := (fayeClient cl)\<lparr>next_handle := Suc (next_handle (fayeClient cl)),
            active := active (fayeClient cl)
                      @ [(next_handle (fayeClient cl), ''/'' @ notificationChannel fd, cb)]\<rparr>,
         subscriptions := (subscriptions cl)
           (''/'' @ notificationChannel fd \<mapsto>
              \<lparr>stream_subscription.token = token fd,
               stream_subscription.userId = notificationChannel fd,
               fayeSubscription = next_handle (fayeClient cl)\<rparr>)\<rparr>)"
  by (simp add: subscribe_def faye_subscribe_def Let_def)

lemma client_app_configured: "truthy_str (appId client_app)"
  by (simp add: client_app_def truthy_str_def)

lemma first_subscribe:
  "subscribe client_app feed_user_1 () =
     (Inr 0, \<lparr>appId = Some ''app'',
              subscriptions = [''/site-app-feed-user1'' \<mapsto>
                 \<lparr>stream_subscription.token = ''tok'',
                  stream_subscription.userId = ''site-app-feed-user1'',
                  fayeSubscription = 0\<rparr>],
              fayeClient = \<lparr>next_handle = 1, active = [(0, ''/site-app-feed-user1'', ())]\<rparr>\<rparr>)"
  by (simp add: subscribe_configured [OF client_app_configured])
     (simp add: client_app_def feed_user_1_def)

lemma channel_user_1: "notificationChannel feed_user_1 = ''site-app-feed-user1''"
  by (simp add: feed_user_1_def)

lemma leaked_Nil:
  "leaked cl = [] \<longleftrightarrow>
     (\<forall>s \<in> set (active (fayeClient cl)).
        map_option fayeSubscription (subscriptions cl (fst (snd s))) = Some (fst s))"
  by (auto simp: leaked_def filter_empty_conv)

lemma subscribe_keeps_no_leak:
  assumes "leaked cl = []" and "subscriptions cl (''/'' @ notificationChannel fd) = None"
  shows "leaked (snd (subscribe cl fd cb)) = []"
proof (cases "truthy_str (appId cl)")
  case False
  with assms(1) show ?thesis by (simp add: subscribe_def)
next
  case True
  have other: "fst (snd s) \<noteq> ''/'' @ notificationChannel fd"
    if "s \<in> set (active (fayeClient cl))" for s
    using assms that by (auto simp: leaked_Nil)
  show ?thesis
    using assms(1) other
    by (auto simp: leaked_Nil subscribe_configured [OF True])
qed

lemma unsubscribe_keeps_no_leak:
  assumes "leaked cl = []"
  shows "leaked (unsubscribe cl fd) = []"
proof (cases "subscriptions cl (''/'' @ notificationChannel fd)")
  case None
  with assms show ?thesis by (simp add: unsubscribe_def)
next
  case (Some e)
  with assms show ?thesis
    by (auto simp: leaked_Nil unsubscribe_def faye_cancel_def)
qed

lemma invoke_keeps_no_leak:
  assumes "leaked (fst st) = []"
    and "is_subscribe c \<longrightarrow> subscriptions (fst st) (''/'' @ notificationChannel (snd st)) = None"
  shows "leaked (fst (invoke st c)) = []"
  using assms
  by (cases st; cases c) (simp_all add: subscribe_keeps_no_leak unsubscribe_keeps_no_leak)

text \<open>Without a second \<^verbatim>\<open>subscribe\<close> on a subscribed feed nothing leaks: from a client
  whose open handles are all held by the registry, every sequence of calls in which
  each \<^verbatim>\<open>subscribe\<close> finds no entry for the feed's channel ends in such a client.\<close>

lemma no_leak_without_double_subscribe:
  "leaked (fst st) = [] \<Longrightarrow> single_subscribes st calls \<Longrightarrow> leaked (fst (run st calls)) = []"
proof (induction calls arbitrary: st)
  case Nil
  then show ?case by simp
next
  case (Cons c calls)
  from Cons.prems have "leaked (fst (invoke st c)) = []"
    by (simp add: invoke_keeps_no_leak)
  moreover from Cons.prems have "single_subscribes (invoke st c) calls"
    by simp
  ultimately show ?case
    using Cons.IH [of "invoke st c"] by simp
qed

text \<open>
  C6. The claim fails at a double subscribe: on the client with app id \<open>app\<close>, the second
  \<^verbatim>\<open>subscribe\<close> on the feed \<open>user:1\<close> is accepted and returns handle 1; it replaces the
  registry entry without cancelling handle 0, which from then on is open at the
  transport and held by no entry, and stays so after \<^verbatim>\<open>unsubscribe\<close>, which cancels
  handle 1 only and leaves no entry. After the first \<^verbatim>\<open>subscribe\<close> alone nothing leaks.
\<close>

theorem double_subscribe_leaks_first_handle:
  "fst (subscribe (fst (run (client_app, feed_user_1) [Subscribe ()])) feed_user_1 ()) = Inr 1
   \<and> leaked (fst (run (client_app, feed_user_1) [Subscribe ()])) = []
   \<and> leaked (fst (run (client_app, feed_user_1) [Subscribe (), Subscribe ()])) = [0]
   \<and> map_option fayeSubscription
        (subscriptions (fst (run (client_app, feed_user_1) [Subscribe (), Subscribe ()]))
           ''/site-app-feed-user1'') = Some 1
   \<and> leaked (fst (run (client_app, feed_user_1) [Subscribe (), Subscribe (), Unsubscribe])) = [0]
   \<and> subscriptions (fst (run (client_app, feed_user_1) [Subscribe (), Subscribe (), Unsubscribe]))
        ''/site-app-feed-user1'' = None
   \<and> map fst (active (fayeClient
        (fst (run (client_app, feed_user_1) [Subscribe (), Subscribe (), Unsubscribe])))) = [0]"
  by (simp add: subscribe_def unsubscribe_def faye_subscribe_def faye_cancel_def
      leaked_def truthy_str_def client_app_def feed_user_1_def Let_def)

text \<open>
  C7. On a client whose app id is missing or empty, \<^verbatim>\<open>subscribe\<close> throws \<^verbatim>\<open>SiteError\<close> (the
  library's class for the specification's ConfigError) and leaves the client as it
  was: no subscription opened, no entry written. \<^verbatim>\<open>unsubscribe\<close> never throws; without
  an entry for the feed's channel it changes nothing, and with one it deletes that
  entry, keeps the others, and cancels the entry's handle at the transport.
\<close>

theorem subscribe_unsubscribe_contract:
  "(appId cl = None \<or> appId cl = Some [] \<longrightarrow>
      (\<exists>m. subscribe cl fd cb = (Inl (SiteError m), cl)))
   \<and> (subscriptions cl (''/'' @ notificationChannel fd) = None \<longrightarrow> unsubscribe cl fd = cl)
   \<and> (\<forall>e. subscriptions cl (''/'' @ notificationChannel fd) = Some e \<longrightarrow>
         subscriptions (unsubscribe cl fd) (''/'' @ notificationChannel fd) = None
         \<and> (\<forall>k. k \<noteq> ''/'' @ notificationChannel fd \<longrightarrow>
               subscriptions (unsubscribe cl fd) k = subscriptions cl k)
         \<and> active (fayeClient (unsubscribe cl fd))
             = filter (\<lambda>s. fst s \<noteq> fayeSubscription e) (active (fayeClient cl))
         \<and> fayeSubscription e \<notin> fst ` set (active (fayeClient (unsubscribe cl fd))))"
  by (auto simp: subscribe_def unsubscribe_def truthy_str_def faye_cancel_def Let_def)

theorem subscribe_unsubscribe_contract_witness:
  "(\<exists>m. subscribe client_no_app feed_user_1 () = (Inl (SiteError m), client_no_app))
   \<and> unsubscribe client_no_app feed_user_1 = client_no_app
   \<and> subscriptions (unsubscribe (snd (subscribe client_app feed_user_1 ())) feed_user_1)
        ''/site-app-feed-user1'' = None
   \<and> active (fayeClient (unsubscribe (snd (subscribe client_app feed_user_1 ())) feed_user_1)) = []"
proof -
  let ?c1 = "snd (subscribe client_app feed_user_1 ())"
  have none: "appId client_no_app = None \<or> appId client_no_app = Some []"
    by (simp add: client_no_app_def)
  have empty: "subscriptions client_no_app (''/'' @ notificationChannel feed_user_1) = None"
    by (simp add: client_no_app_def client_app_def)
  have entry: "subscriptions ?c1 (''/'' @ notificationChannel feed_user_1)
      = Some \<lparr>stream_subscription.token = ''tok'',
               stream_subscription.userId = ''site-app-feed-user1'', fayeSubscription = 0\<rparr>"
    by (simp add: first_subscribe channel_user_1)
  note c = subscribe_unsubscribe_contract
  from c [of client_no_app feed_user_1 "()"] none
  have msg: "\<exists>m. subscribe client_no_app feed_user_1 () = (Inl (SiteError m), client_no_app)"
    by blast
  have noop: "unsubscribe client_no_app feed_user_1 = client_no_app"
    using c [of client_no_app feed_user_1] empty by blast
  have gone: "subscriptions (unsubscribe ?c1 feed_user_1) (''/'' @ notificationChannel feed_user_1) = None"
    "active (fayeClient (unsubscribe ?c1 feed_user_1))
       = filter (\<lambda>s. fst s \<noteq> 0) (active (fayeClient ?c1))"
    using c [of ?c1 feed_user_1] entry by auto
  from msg noop gone show ?thesis
    by (simp add: first_subscribe channel_user_1)
qed

end
